theory Spec2Isabelle
  imports Main
begin

section \<open>The S3 collector of pipeline runs (collector\_s3.go)\<close>

text \<open>
  Go strings and byte slices are sequences of bytes; both are modelled as \<open>string\<close>
  (a list of 8-bit characters). The line feed that every formatted entry ends with is
  the character 0x0A.
\<close>

type_synonym bytes = string

definition nl :: string where
  "nl = [CHR 0x0A]"

subsection \<open>The merge worker of collectLog\<close>

text \<open>
  An element of the log channel, as the worker reads it: \<open>l.Task\<close>, \<open>l.Step\<close>,
  \<open>l.Log\<close>.
\<close>

datatype tektonLog = TektonLog (Task: string) (Step: string) (Log: string)

text \<open>
  What one round of the worker's \<open>select\<close> receives. \<open>RecvLog (Some l)\<close> is
  \<open>l, ok := <-logC\<close> with \<open>ok\<close> true, \<open>RecvLog None\<close> is the same receive with
  \<open>ok\<close> false (the channel is closed). \<open>RecvErr\<close> is the receive on \<open>errC\<close>; the
  string is the text that \<open>%s\<close> prints for the received error. A delivery is the list of
  these receives in the order in which they arrive.
\<close>

datatype recv = RecvLog "tektonLog option" | RecvErr "string option"

definition formatLog :: "tektonLog \<Rightarrow> string" where
  \<comment> \<open>\<open>fmt.Sprintf("[%s : %s] %s\n", l.Task, l.Step, l.Log)\<close>\<close>
  "formatLog l = ''['' @ Task l @ '' : '' @ Step l @ ''] '' @ Log l @ nl"

definition formatErr :: "string \<Rightarrow> string" where
  \<comment> \<open>\<open>fmt.Sprintf("%s\n", e)\<close>\<close>
  "formatErr e = e @ nl"

definition emit :: "string \<Rightarrow> string list \<times> bool \<Rightarrow> string list \<times> bool" where
  \<comment> \<open>one \<open>w.Write\<close> on the pipe, before the writes of the later rounds\<close>
  "emit s p = (s # fst p, snd p)"

text \<open>
  The loop \<open>for logC != nil || errC != nil { select { ... } }\<close>. The two booleans say
  whether \<open>logC\<close> and \<open>errC\<close> are still non-nil. The result is the sequence of writes
  made on the pipe and whether the deferred \<open>w.Close()\<close> has run, that is, whether the
  loop was left. When the delivery is used up while a channel variable is still
  non-nil, the \<open>select\<close> waits forever and the pipe stays open. A receive on a channel
  whose variable is already nil cannot be selected, so the worker never sees it.
\<close>

fun mergeLoop :: "bool \<Rightarrow> bool \<Rightarrow> recv list \<Rightarrow> string list \<times> bool" where
  "mergeLoop logC errC [] = ([], \<not> logC \<and> \<not> errC)"
| "mergeLoop logC errC (r # evs) =
     (if \<not> logC \<and> \<not> errC then ([], True)
      else case r of
        RecvLog x \<Rightarrow>
          (if \<not> logC then mergeLoop logC errC evs
           else case x of
             None \<Rightarrow> mergeLoop False errC evs
           | Some l \<Rightarrow>
               if Log l = ''EOFLOG'' then emit nl (mergeLoop logC errC evs)
               else emit (formatLog l) (mergeLoop logC errC evs))
      | RecvErr x \<Rightarrow>
          (if \<not> errC then mergeLoop logC errC evs
           else case x of
             None \<Rightarrow> mergeLoop logC False evs
           | Some e \<Rightarrow> emit (formatErr e) (mergeLoop logC errC evs)))"

definition pipeWrites :: "recv list \<Rightarrow> string list" where
  "pipeWrites evs = fst (mergeLoop True True evs)"

definition pipeClosed :: "recv list \<Rightarrow> bool" where
  "pipeClosed evs = snd (mergeLoop True True evs)"

definition mergedText :: "recv list \<Rightarrow> bytes" where
  \<comment> \<open>what \<open>ioutil.ReadAll(r)\<close> collects from the read side of the pipe\<close>
  "mergedText evs = concat (pipeWrites evs)"

text \<open>
  A delivery that Go channels can produce: a closed channel is observed closed once,
  after which its variable is nil, and nothing is received once both are nil.
\<close>

fun delivery :: "bool \<Rightarrow> bool \<Rightarrow> recv list \<Rightarrow> bool" where
  "delivery logOpen errOpen [] = True"
| "delivery logOpen errOpen (RecvLog x # evs) = (logOpen \<and> delivery (x \<noteq> None) errOpen evs)"
| "delivery logOpen errOpen (RecvErr x # evs) = (errOpen \<and> delivery logOpen (x \<noteq> None) evs)"

text \<open>The write that one receive causes, if any.\<close>

fun entry :: "recv \<Rightarrow> string list" where
  "entry (RecvLog None) = []"
| "entry (RecvLog (Some l)) = [if Log l = ''EOFLOG'' then nl else formatLog l]"
| "entry (RecvErr None) = []"
| "entry (RecvErr (Some e)) = [formatErr e]"

fun isLine :: "recv \<Rightarrow> bool" where
  "isLine (RecvLog (Some l)) = (Log l \<noteq> ''EOFLOG'')"
| "isLine _ = False"

fun isSentinel :: "recv \<Rightarrow> bool" where
  "isSentinel (RecvLog (Some l)) = (Log l = ''EOFLOG'')"
| "isSentinel _ = False"

fun isError :: "recv \<Rightarrow> bool" where
  "isError (RecvErr (Some e)) = True"
| "isError _ = False"

subsection \<open>cutByteInMiddle\<close>

text \<open>
  A Go \<open>[]byte\<close>, seen from its first element: \<open>elems\<close> are its \<open>len\<close> bytes and
  \<open>spare\<close> the bytes of the backing array behind them, so that the capacity is
  \<open>length elems + length spare\<close>.
\<close>

datatype slice = Slice (elems: bytes) (spare: bytes)

datatype panic = SliceBoundsOutOfRange | NilPointerDereference

definition mb :: int where
  "mb = 1024 * 1024"

definition limitSize :: int where
  \<comment> \<open>\<open>_limitSize = _mb * 2.5\<close>, an exact integer constant\<close>
  "limitSize = mb * 25 div 10"

definition marker :: bytes where
  "marker = ''......''"

text \<open>
  \<open>b1 := data[:begin]\<close> may reach up to the capacity, \<open>b2 := data[end:]\<close> up to the
  length; both share the array of \<open>data\<close>. The first \<open>append\<close> writes the marker into
  that array when the capacity suffices, and \<open>b2\<close> is read only afterwards, by the second
  \<open>append\<close>: it sees the array as the first one left it.
\<close>

definition cutByteInMiddle :: "slice \<Rightarrow> int \<Rightarrow> int \<Rightarrow> int \<Rightarrow> panic + bytes" where
  "cutByteInMiddle data limit beginIdx endIdx =
     (let l = int (length (elems data));
          arr = elems data @ spare data
      in if limit > 0 \<and> l < limit then Inr (elems data)
         else if beginIdx < 0 \<or> int (length arr) < beginIdx then Inl SliceBoundsOutOfRange
         else if endIdx < 0 \<or> l < endIdx then Inl SliceBoundsOutOfRange
         else
           let b = nat beginIdx;
               e = nat endIdx;
               arr1 = (if b + length marker \<le> length arr
                       then take b arr @ marker @ drop (b + length marker) arr
                       else arr);
               b1 = take b arr @ marker;
               b2 = take (nat l - e) (drop e arr1)
           in Inr (b1 @ b2))"

subsection \<open>Storage keys\<close>

text \<open>
  The metadata of a run, as the collector reads it: \<open>metadata.Application\<close>,
  \<open>metadata.PipelineRun.Name\<close> and so on. Times are seconds since the epoch.
\<close>

type_synonym Time = int

record PrMetadata =
  Name :: string
  Pipeline :: string
  Result :: string
  StartTime :: "Time option"
  CompletionTime :: "Time option"

record ObjectMeta =
  Application :: string
  ApplicationID :: string
  Cluster :: string
  ClusterID :: string
  Environment :: string
  Operator :: string
  CreationTimestamp :: string
  PipelineRun :: PrMetadata

text \<open>
  \<open>timeStr\<close> is \<open>time.Now().Format("200601")\<close>, the year and month of the call.
\<close>

definition getPathForPr :: "string \<Rightarrow> ObjectMeta \<Rightarrow> string" where
  "getPathForPr timeStr metadata =
     timeStr @ ''/pr/'' @ Application metadata @ ''-'' @ ApplicationID metadata @ ''/''
       @ Cluster metadata @ ''-'' @ ClusterID metadata @ ''/'' @ Name (PipelineRun metadata)"

definition getPathForPrLog :: "string \<Rightarrow> ObjectMeta \<Rightarrow> string" where
  "getPathForPrLog timeStr metadata =
     timeStr @ ''/pr-log/'' @ Application metadata @ ''-'' @ ApplicationID metadata @ ''/''
       @ Cluster metadata @ ''-'' @ ClusterID metadata @ ''/'' @ Name (PipelineRun metadata)"

subsection \<open>Errors\<close>

text \<open>
  An error of the object store or of the JSON codec, as the collector inspects it:
  \<open>errText\<close> is what \<open>err.Error()\<close> returns, and \<open>AwsErr\<close> is an error that
  satisfies \<open>awserr.Error\<close>, with the answer of \<open>Code()\<close>.
\<close>

datatype extError = AwsErr (awsCode: string) (errText: string) | OtherErr (errText: string)

definition ErrCodeNoSuchKey :: string where
  \<comment> \<open>\<open>awss3.ErrCodeNoSuchKey\<close>\<close>
  "ErrCodeNoSuchKey = ''NoSuchKey''"

datatype resource = Pipelinerun | PipelinerunLog | PipelinerunObj

datatype errcode =
  ErrParamInvalid | ErrS3SignFailed | ErrS3PutObjFailed | ErrS3GetObjFailed | ErrReadFailed

text \<open>
  The errors that the collector returns or receives from the orchestrator client.
  \<open>Sentinel c\<close> is the package-level error \<open>herrors.c\<close>; \<open>Wrap\<close> and \<open>WithMessage\<close>
  are \<open>perror.Wrap\<close> and \<open>perror.WithMessagef\<close>; \<open>K8sStatusError\<close> is an error of the
  Kubernetes client with the answer of \<open>k8serrors.IsNotFound\<close>.
\<close>

datatype error =
  HorizonErrNotFound resource string
| HorizonErrGetFailed resource string
| Sentinel errcode
| Wrap error string
| WithMessage error string
| K8sStatusError bool string
| Plain string

text \<open>
  Modelled from the spec: \<open>perror.Cause\<close> (package pkg/errors of the repository) is
  not among the sources. Errors are wrapped "while preserving the original cause":
  \<open>Cause\<close> removes the wrapping layers and returns the error that was wrapped first.
\<close>

fun Cause :: "error \<Rightarrow> error" where
  "Cause (Wrap e m) = Cause e"
| "Cause (WithMessage e m) = Cause e"
| "Cause e = e"

fun isHorizonErrNotFound :: "error \<Rightarrow> bool" where
  \<comment> \<open>the type assertion \<open>.(*herrors.HorizonErrNotFound)\<close>\<close>
  "isHorizonErrNotFound (HorizonErrNotFound r m) = True"
| "isHorizonErrNotFound e = False"

fun IsNotFound :: "error \<Rightarrow> bool" where
  \<comment> \<open>\<open>k8serrors.IsNotFound\<close>\<close>
  "IsNotFound (K8sStatusError nf m) = nf"
| "IsNotFound e = False"

subsection \<open>Calls on the collaborators\<close>

text \<open>
  A call of the collector either never returns (\<open>Blocks\<close>), panics, returns an error
  or returns a value. Every call on the object store, the orchestrator client and the
  local logger is recorded, in the order in which it is made.
\<close>

datatype 'a outcome = Blocks | Panics panic | Fails error | Returns 'a

datatype action =
  TektonGetPipelineRunLog
| TektonGetPipelineRunLogByID string
| TektonGetPipelineRunByID string
| TektonDeletePipelineRun
| S3GetSignedObjectURL string
| S3PutObject string bytes bool
| S3GetObject string
| S3GetBucket
| LoggerPrintln bytes

text \<open>
  \<open>S3PutObject key body ok\<close> records the key, the body and whether the store accepted
  the object.
\<close>

type_synonym 'a io = "action list \<times> 'a outcome"

definition andThen :: "'a io \<Rightarrow> ('a \<Rightarrow> 'b io) \<Rightarrow> 'b io" where
  \<comment> \<open>\<open>x, err := m; if err != nil { return nil, err }; f x\<close>\<close>
  "andThen m f =
     (case m of
        (t, Returns x) \<Rightarrow> (case f x of (t', r) \<Rightarrow> (t @ t', r))
      | (t, Blocks) \<Rightarrow> (t, Blocks)
      | (t, Panics p) \<Rightarrow> (t, Panics p)
      | (t, Fails e) \<Rightarrow> (t, Fails e))"

text \<open>The snapshot envelope \<open>Object\<close> and the audit record \<open>LogStruct\<close>.\<close>

datatype 'pr Object = Object (Metadata: "ObjectMeta option") (objPipelineRun: "'pr option")

datatype MetadataAndURLStruct = MetadataAndURLStruct string "ObjectMeta option"

datatype LogAndURLStruct = LogAndURLStruct string string

datatype LogStruct = LogStruct MetadataAndURLStruct LogAndURLStruct

definition NewLogStruct :: "string \<Rightarrow> ObjectMeta \<Rightarrow> string \<Rightarrow> string \<Rightarrow> LogStruct" where
  "NewLogStruct prURL metadata logURL logContent =
     LogStruct (MetadataAndURLStruct prURL (Some metadata)) (LogAndURLStruct logURL logContent)"

text \<open>Channels are identified by handles.\<close>

type_synonym chan = nat

text \<open>
  The collaborators of one call: what the orchestrator client (\<open>tekton\<close>), the object
  store (\<open>s3\<close>), the JSON codec and the clock answer. \<open>'pr\<close> is the orchestrator's run
  object (\<open>v1beta1.PipelineRun\<close>), \<open>'hm\<close> the platform context
  (\<open>global.HorizonMetaData\<close>). For \<open>tektonGetPipelineRunLog\<close> the two channels are
  given by the delivery that the worker will receive from them. \<open>nowPrLog\<close> and
  \<open>nowPr\<close> are the months that \<open>time.Now()\<close> shows in \<open>getPathForPrLog\<close> and in
  \<open>getPathForPr\<close>.
\<close>

record ('pr, 'hm) world =
  resolveObjMetadata :: "'pr \<Rightarrow> 'hm \<Rightarrow> ObjectMeta"
  tektonGetPipelineRunLog :: "'pr \<Rightarrow> error + recv list"
  tektonGetPipelineRunLogByID :: "string \<Rightarrow> error + chan \<times> chan"
  tektonGetPipelineRunByID :: "string \<Rightarrow> error + 'pr option"
  tektonDeletePipelineRun :: "'pr \<Rightarrow> error option"
  s3GetSignedObjectURL :: "string \<Rightarrow> extError + string"
  s3PutObject :: "string \<Rightarrow> bytes \<Rightarrow> extError option"
  s3GetObject :: "string \<Rightarrow> extError + bytes"
  s3GetBucket :: string
  jsonMarshalObject :: "'pr Object \<Rightarrow> extError + bytes"
  jsonMarshalLogStruct :: "LogStruct \<Rightarrow> extError + slice"
  jsonUnmarshalObject :: "bytes \<Rightarrow> extError + 'pr Object option"
  nowPrLog :: string
  nowPr :: string

subsection \<open>Collect\<close>

record CollectLogResult =
  clLogObject :: string
  LogURL :: string
  LogContent :: string

record CollectObjectResult =
  coPrObject :: string
  PrURL :: string

record CollectResult =
  Bucket :: string
  crLogObject :: string
  crPrObject :: string
  crResult :: string
  crStartTime :: "Time option"
  crCompletionTime :: "Time option"

text \<open>
  \<open>collectLog\<close>: the worker runs beside the caller, which signs the URL of the log key
  and then drains the pipe with \<open>ioutil.ReadAll\<close>. The read returns when the worker has
  closed the pipe and never returns otherwise. The pipe is closed with \<open>w.Close()\<close>, so the
  read ends with end-of-stream and \<open>ReadAll\<close> reports no error.
\<close>

definition collectLog :: "('pr, 'hm) world \<Rightarrow> 'pr \<Rightarrow> ObjectMeta \<Rightarrow> CollectLogResult io" where
  "collectLog w pr metadata =
     (case tektonGetPipelineRunLog w pr of
        Inl err \<Rightarrow>
          ([TektonGetPipelineRunLog],
           Fails (if IsNotFound err then HorizonErrNotFound Pipelinerun ''''
                  else HorizonErrGetFailed Pipelinerun ''''))
      | Inr evs \<Rightarrow>
          (let logPath = getPathForPrLog (nowPrLog w) metadata in
           case s3GetSignedObjectURL w logPath of
             Inl err \<Rightarrow>
               ([TektonGetPipelineRunLog, S3GetSignedObjectURL logPath],
                Fails (Wrap (Sentinel ErrS3SignFailed) (errText err)))
           | Inr logURL \<Rightarrow>
               if \<not> pipeClosed evs
               then ([TektonGetPipelineRunLog, S3GetSignedObjectURL logPath], Blocks)
               else
                 (let b = mergedText evs in
                  case s3PutObject w logPath b of
                    Some err \<Rightarrow>
                      ([TektonGetPipelineRunLog, S3GetSignedObjectURL logPath,
                        S3PutObject logPath b False],
                       Fails (Wrap (Sentinel ErrS3PutObjFailed) (errText err)))
                  | None \<Rightarrow>
                      ([TektonGetPipelineRunLog, S3GetSignedObjectURL logPath,
                        S3PutObject logPath b True],
                       Returns \<lparr>clLogObject = logPath, LogURL = logURL, LogContent = b\<rparr>))))"

definition collectObject ::
    "('pr, 'hm) world \<Rightarrow> ObjectMeta \<Rightarrow> 'pr \<Rightarrow> CollectObjectResult io" where
  "collectObject w metadata pr =
     (case jsonMarshalObject w (Object (Some metadata) (Some pr)) of
        Inl err \<Rightarrow> ([], Fails (Wrap (Sentinel ErrParamInvalid) (errText err)))
      | Inr b \<Rightarrow>
          (let prPath = getPathForPr (nowPr w) metadata in
           case s3GetSignedObjectURL w prPath of
             Inl err \<Rightarrow>
               ([S3GetSignedObjectURL prPath],
                Fails (Wrap (Sentinel ErrS3SignFailed) (errText err)))
           | Inr prURL \<Rightarrow>
               (case s3PutObject w prPath b of
                  Some err \<Rightarrow>
                    ([S3GetSignedObjectURL prPath, S3PutObject prPath b False],
                     Fails (Wrap (Sentinel ErrS3PutObjFailed) (errText err)))
                | None \<Rightarrow>
                    ([S3GetSignedObjectURL prPath, S3PutObject prPath b True],
                     Returns \<lparr>coPrObject = prPath, PrURL = prURL\<rparr>))))"

definition Collect :: "('pr, 'hm) world \<Rightarrow> 'pr \<Rightarrow> 'hm \<Rightarrow> CollectResult io" where
  "Collect w pr horizonMetaData =
     (let metadata = resolveObjMetadata w pr horizonMetaData in
      andThen (collectLog w pr metadata) (\<lambda>collectLogResult.
      andThen (collectObject w metadata pr) (\<lambda>collectObjectResult.
        let logStruct = NewLogStruct (PrURL collectObjectResult) metadata
                          (LogURL collectLogResult) (LogContent collectLogResult)
        in case jsonMarshalLogStruct w logStruct of
             Inl err \<Rightarrow> ([], Fails (Wrap (Sentinel ErrParamInvalid) (errText err)))
           | Inr b \<Rightarrow>
               (case cutByteInMiddle b limitSize mb (int (length (elems b)) - mb) of
                  Inl p \<Rightarrow> ([], Panics p)
                | Inr b' \<Rightarrow>
                    (let collectResult =
                           \<lparr>Bucket = s3GetBucket w,
                            crLogObject = clLogObject collectLogResult,
                            crPrObject = coPrObject collectObjectResult,
                            crResult = Result (PipelineRun metadata),
                            crStartTime = StartTime (PipelineRun metadata),
                            crCompletionTime = CompletionTime (PipelineRun metadata)\<rparr>
                     in case tektonDeletePipelineRun w pr of
                          Some err \<Rightarrow>
                            if isHorizonErrNotFound (Cause err)
                            then ([LoggerPrintln b', S3GetBucket, TektonDeletePipelineRun],
                                  Returns collectResult)
                            else ([LoggerPrintln b', S3GetBucket, TektonDeletePipelineRun],
                                  Fails err)
                        | None \<Rightarrow>
                            ([LoggerPrintln b', S3GetBucket, TektonDeletePipelineRun],
                             Returns collectResult))))))"

subsection \<open>The read path\<close>

text \<open>The database record of a run, as the read path uses it.\<close>

record Pipelinerun =
  PrObject :: string
  LogObject :: string
  CIEventID :: string

text \<open>
  The result \<open>Log\<close> of the read path. A nil byte slice is the empty one, a nil channel
  is \<open>None\<close>.
\<close>

record CollectorLog =
  LogBytes :: bytes
  LogChannel :: "chan option"
  ErrChannel :: "chan option"

definition getObjectError :: "resource \<Rightarrow> extError \<Rightarrow> error" where
  \<comment> \<open>the error branch shared by \<open>getPipelineRunLog\<close> and \<open>GetPipelineRunObject\<close>\<close>
  "getObjectError kind err =
     (case err of
        AwsErr code text \<Rightarrow>
          if code = ErrCodeNoSuchKey then HorizonErrNotFound kind (errText err)
          else Wrap (Sentinel ErrS3GetObjFailed) (errText err)
      | OtherErr text \<Rightarrow> Wrap (Sentinel ErrS3GetObjFailed) (errText err))"

definition getPipelineRunLog :: "('pr, 'hm) world \<Rightarrow> string \<Rightarrow> bytes io" where
  "getPipelineRunLog w logObject =
     (case s3GetObject w logObject of
        Inl err \<Rightarrow> ([S3GetObject logObject], Fails (getObjectError PipelinerunLog err))
      | Inr b \<Rightarrow> ([S3GetObject logObject], Returns b))"

definition GetPipelineRunLog :: "('pr, 'hm) world \<Rightarrow> Pipelinerun \<Rightarrow> CollectorLog io" where
  "GetPipelineRunLog w pr =
     (if PrObject pr \<noteq> '''' then
        (case getPipelineRunLog w (LogObject pr) of
           (t, Returns logBytes) \<Rightarrow>
             (t, Returns \<lparr>LogBytes = logBytes, LogChannel = None, ErrChannel = None\<rparr>)
         | (t, Fails err) \<Rightarrow>
             (t, Fails (WithMessage err ''failed to get pipelineRun log from s3''))
         | (t, Blocks) \<Rightarrow> (t, Blocks)
         | (t, Panics p) \<Rightarrow> (t, Panics p))
      else
        (case tektonGetPipelineRunLogByID w (CIEventID pr) of
           Inl err \<Rightarrow>
             ([TektonGetPipelineRunLogByID (CIEventID pr)],
              Fails (WithMessage err ''failed to get pipelineRun log from k8s''))
         | Inr (logCh, errCh) \<Rightarrow>
             ([TektonGetPipelineRunLogByID (CIEventID pr)],
              Returns \<lparr>LogBytes = [], LogChannel = Some logCh, ErrChannel = Some errCh\<rparr>)))"

definition GetPipelineRunObject :: "('pr, 'hm) world \<Rightarrow> string \<Rightarrow> 'pr Object option io" where
  "GetPipelineRunObject w object =
     (case s3GetObject w object of
        Inl err \<Rightarrow> ([S3GetObject object], Fails (getObjectError PipelinerunObj err))
      | Inr b \<Rightarrow>
          (case jsonUnmarshalObject w b of
             Inl err \<Rightarrow>
               ([S3GetObject object], Fails (Wrap (Sentinel ErrParamInvalid) (errText err)))
           | Inr obj \<Rightarrow> ([S3GetObject object], Returns obj)))"

text \<open>
  \<open>GetPipelineRun\<close> returns a pointer to the run, \<open>None\<close> being nil. The persisted
  branch reads \<open>obj.PipelineRun\<close>; the envelope pointer that \<open>json.Unmarshal\<close> leaves
  is nil for the JSON text \<open>null\<close>.
\<close>

definition GetPipelineRun :: "('pr, 'hm) world \<Rightarrow> Pipelinerun \<Rightarrow> 'pr option io" where
  "GetPipelineRun w pr =
     (if PrObject pr \<noteq> '''' then
        andThen (GetPipelineRunObject w (PrObject pr)) (\<lambda>obj.
          case obj of
            None \<Rightarrow> ([], Panics NilPointerDereference)
          | Some ob \<Rightarrow> ([], Returns (objPipelineRun ob)))
      else
        (case tektonGetPipelineRunByID w (CIEventID pr) of
           Inl err \<Rightarrow>
             if isHorizonErrNotFound (Cause err)
             then ([TektonGetPipelineRunByID (CIEventID pr)], Returns None)
             else ([TektonGetPipelineRunByID (CIEventID pr)], Fails err)
         | Inr tektonPipelineRun \<Rightarrow>
             ([TektonGetPipelineRunByID (CIEventID pr)], Returns tektonPipelineRun)))"

subsection \<open>The scenario of the specification\<close>

text \<open>
  Run \<open>build-42\<close> of application \<open>shop\<close> (ID 7) on cluster \<open>prod\<close> (ID 3), collected
  in January 2024: a store that accepts every object, a log of one line with both
  channels closed afterwards, and an orchestrator whose answer to the deletion is the
  parameter.
\<close>

definition scenarioMetadata :: ObjectMeta where
  "scenarioMetadata =
     \<lparr>Application = ''shop'', ApplicationID = ''7'', Cluster = ''prod'', ClusterID = ''3'',
      Environment = ''online'', Operator = ''alice'', CreationTimestamp = ''20240115'',
      PipelineRun = \<lparr>Name = ''build-42'', Pipeline = ''default'', Result = ''ok'',
                     StartTime = Some 100, CompletionTime = Some 160\<rparr>\<rparr>"

definition scenarioWorld :: "error option \<Rightarrow> (string, unit) world" where
  "scenarioWorld deletion =
     \<lparr>resolveObjMetadata = (\<lambda>pr hm. scenarioMetadata),
      tektonGetPipelineRunLog =
        (\<lambda>pr. Inr [RecvLog (Some (TektonLog ''t1'' ''s1'' ''hello'')), RecvLog None,
                   RecvErr None]),
      tektonGetPipelineRunLogByID = (\<lambda>i. Inr (0, 1)),
      tektonGetPipelineRunByID = (\<lambda>i. Inr (Some ''build-42'')),
      tektonDeletePipelineRun = (\<lambda>pr. deletion),
      s3GetSignedObjectURL = (\<lambda>key. Inr (''https://store/'' @ key)),
      s3PutObject = (\<lambda>key body. None),
      s3GetObject = (\<lambda>key. Inr ''{}''),
      s3GetBucket = ''bucket'',
      jsonMarshalObject = (\<lambda>obj. Inr ''{}''),
      jsonMarshalLogStruct = (\<lambda>l. Inr (Slice ''{}'' [])),
      jsonUnmarshalObject = (\<lambda>b. Inr (Some (Object (Some scenarioMetadata) (Some ''build-42'')))),
      nowPrLog = ''202401'',
      nowPr = ''202401''\<rparr>"

section \<open>Properties of the merge worker\<close>

lemma mergeLoop_writes:
  "delivery logC errC evs \<Longrightarrow> fst (mergeLoop logC errC evs) = concat (map entry evs)"
proof (induction evs arbitrary: logC errC)
  case Nil
  then show ?case by simp
next
  case (Cons r evs)
  show ?case
  proof (cases r)
    case (RecvLog x)
    with Cons.prems have opn: "logC" and rest: "delivery (x \<noteq> None) errC evs"
      by simp_all
    show ?thesis
    proof (cases x)
      case None
      with rest have "delivery False errC evs" by simp
      from Cons.IH [OF this] show ?thesis using RecvLog None opn by simp
    next
      case (Some l)
      with rest have "delivery True errC evs" by simp
      from Cons.IH [OF this] show ?thesis using RecvLog Some opn by (simp add: emit_def)
    qed
  next
    case (RecvErr x)
    with Cons.prems have opn: "errC" and rest: "delivery logC (x \<noteq> None) evs"
      by simp_all
    show ?thesis
    proof (cases x)
      case None
      with rest have "delivery logC False evs" by simp
      from Cons.IH [OF this] show ?thesis using RecvErr None opn by simp
    next
      case (Some e)
      with rest have "delivery logC True evs" by simp
      from Cons.IH [OF this] show ?thesis using RecvErr Some opn by (simp add: emit_def)
    qed
  qed
qed

lemma mergeLoop_closed:
  "snd (mergeLoop logC errC evs) =
     ((\<not> logC \<or> RecvLog None \<in> set evs) \<and> (\<not> errC \<or> RecvErr None \<in> set evs))"
proof (induction evs arbitrary: logC errC)
  case Nil
  show ?case by simp
next
  case (Cons r evs)
  show ?case
  proof (cases r)
    case (RecvLog x)
    then show ?thesis
      by (cases x) (auto simp: Cons.IH emit_def)
  next
    case (RecvErr x)
    then show ?thesis
      by (cases x) (auto simp: Cons.IH emit_def)
  qed
qed

lemma length_concat_entry:
  "length (concat (map entry evs)) =
     length (filter isLine evs) + length (filter isSentinel evs) + length (filter isError evs)"
proof (induction evs)
  case Nil
  show ?case by simp
next
  case (Cons r evs)
  show ?case
  proof (cases r)
    case (RecvLog x)
    with Cons show ?thesis by (cases x) simp_all
  next
    case (RecvErr x)
    with Cons show ?thesis by (cases x) simp_all
  qed
qed

text \<open>
  C1 (as amended). For every delivery in a fixed order, the merged byte stream is the
  concatenation, in arrival order, of one entry per receive: \<open>"[task : step] text\n"\<close>
  (with a blank on each side of the colon) for a line, a lone line feed for the sentinel
  \<open>EOFLOG\<close>, \<open>"text\n"\<close> for an error, and nothing for the closing of a channel.
\<close>

theorem merged_text_is_interleaving:
  "delivery True True evs \<Longrightarrow>
   mergedText evs =
     concat (map (\<lambda>r. case r of
                RecvLog None \<Rightarrow> []
              | RecvLog (Some l) \<Rightarrow>
                  if Log l = ''EOFLOG'' then [CHR 0x0A]
                  else ''['' @ Task l @ '' : '' @ Step l @ ''] '' @ Log l @ [CHR 0x0A]
              | RecvErr None \<Rightarrow> []
              | RecvErr (Some e) \<Rightarrow> e @ [CHR 0x0A]) evs)"
proof -
  assume d: "delivery True True evs"
  have same: "concat (entry r) =
      (case r of
         RecvLog None \<Rightarrow> []
       | RecvLog (Some l) \<Rightarrow>
           if Log l = ''EOFLOG'' then [CHR 0x0A]
           else ''['' @ Task l @ '' : '' @ Step l @ ''] '' @ Log l @ [CHR 0x0A]
       | RecvErr None \<Rightarrow> []
       | RecvErr (Some e) \<Rightarrow> e @ [CHR 0x0A])" for r
    by (cases r rule: entry.cases) (simp_all add: formatLog_def formatErr_def nl_def)
  have "mergedText evs = concat (concat (map entry evs))"
    using mergeLoop_writes [OF d] by (simp add: mergedText_def pipeWrites_def)
  also have "\<dots> = concat (map (\<lambda>r. concat (entry r)) evs)"
    by (induction evs) simp_all
  finally show ?thesis
    by (simp only: same)
qed

text \<open>
  The scenario of the specification: the lines \<open>(t1, s1, hello)\<close>, the sentinel and
  \<open>(t1, s2, world)\<close>, no error, then both channels closed.
\<close>

theorem merged_text_is_interleaving_witness:
  "delivery True True
     [RecvLog (Some (TektonLog ''t1'' ''s1'' ''hello'')),
      RecvLog (Some (TektonLog ''t1'' ''s1'' ''EOFLOG'')),
      RecvLog (Some (TektonLog ''t1'' ''s2'' ''world'')),
      RecvLog None, RecvErr None] \<and>
   mergedText
     [RecvLog (Some (TektonLog ''t1'' ''s1'' ''hello'')),
      RecvLog (Some (TektonLog ''t1'' ''s1'' ''EOFLOG'')),
      RecvLog (Some (TektonLog ''t1'' ''s2'' ''world'')),
      RecvLog None, RecvErr None]
   = ''[t1 : s1] hello'' @ [CHR 0x0A] @ [CHR 0x0A] @ ''[t1 : s2] world'' @ [CHR 0x0A]"
proof -
  have d: "delivery True True
     [RecvLog (Some (TektonLog ''t1'' ''s1'' ''hello'')),
      RecvLog (Some (TektonLog ''t1'' ''s1'' ''EOFLOG'')),
      RecvLog (Some (TektonLog ''t1'' ''s2'' ''world'')),
      RecvLog None, RecvErr None]"
    by simp
  show ?thesis
    using d merged_text_is_interleaving [OF d] by simp
qed

text \<open>
  C1 (as stated) fails: on the scenario of the specification the merged text is not
  \<open>"[t1:s1] hello

[t1:s2] world
"\<close>.
\<close>

theorem merged_text_format_counterexample:
  "mergedText
     [RecvLog (Some (TektonLog ''t1'' ''s1'' ''hello'')),
      RecvLog (Some (TektonLog ''t1'' ''s1'' ''EOFLOG'')),
      RecvLog (Some (TektonLog ''t1'' ''s2'' ''world'')),
      RecvLog None, RecvErr None]
   \<noteq> ''[t1:s1] hello'' @ [CHR 0x0A] @ [CHR 0x0A] @ ''[t1:s2] world'' @ [CHR 0x0A]"
  by (simp add: mergedText_def pipeWrites_def emit_def formatLog_def nl_def)

text \<open>
  C7. For every finite delivery with N lines, S sentinels and M errors, the worker makes
  exactly one write per line, sentinel and error, in arrival order (N + S + M writes:
  a formatted entry for each line and each error, a blank line for each sentinel), and
  it closes the pipe exactly when both channels have been observed closed; the closing
  of one channel does not end the consumption of the other.
\<close>

theorem merge_complete_and_terminates:
  "delivery True True evs \<Longrightarrow>
   pipeWrites evs = concat (map entry evs) \<and>
   length (pipeWrites evs) =
     length (filter isLine evs) + length (filter isSentinel evs) + length (filter isError evs) \<and>
   (pipeClosed evs \<longleftrightarrow> RecvLog None \<in> set evs \<and> RecvErr None \<in> set evs)"
proof -
  assume d: "delivery True True evs"
  have w: "pipeWrites evs = concat (map entry evs)"
    using mergeLoop_writes [OF d] by (simp add: pipeWrites_def)
  have c: "pipeClosed evs \<longleftrightarrow> RecvLog None \<in> set evs \<and> RecvErr None \<in> set evs"
    by (simp add: pipeClosed_def mergeLoop_closed)
  show ?thesis
    using w c by (simp add: length_concat_entry)
qed

text \<open>
  A delivery whose log channel closes first: the two errors that arrive afterwards are
  still written, and the pipe is closed once the error channel has closed too.
\<close>

theorem merge_complete_and_terminates_witness:
  "delivery True True
     [RecvLog (Some (TektonLog ''build'' ''compile'' ''ok'')),
      RecvLog (Some (TektonLog ''build'' ''compile'' ''EOFLOG'')),
      RecvLog None,
      RecvErr (Some ''first''), RecvErr (Some ''second''), RecvErr None] \<and>
   pipeWrites
     [RecvLog (Some (TektonLog ''build'' ''compile'' ''ok'')),
      RecvLog (Some (TektonLog ''build'' ''compile'' ''EOFLOG'')),
      RecvLog None,
      RecvErr (Some ''first''), RecvErr (Some ''second''), RecvErr None]
   = [''[build : compile] ok'' @ nl, nl, ''first'' @ nl, ''second'' @ nl] \<and>
   pipeClosed
     [RecvLog (Some (TektonLog ''build'' ''compile'' ''ok'')),
      RecvLog (Some (TektonLog ''build'' ''compile'' ''EOFLOG'')),
      RecvLog None,
      RecvErr (Some ''first''), RecvErr (Some ''second''), RecvErr None]"
proof -
  have d: "delivery True True
     [RecvLog (Some (TektonLog ''build'' ''compile'' ''ok'')),
      RecvLog (Some (TektonLog ''build'' ''compile'' ''EOFLOG'')),
      RecvLog None,
      RecvErr (Some ''first''), RecvErr (Some ''second''), RecvErr None]"
    by simp
  show ?thesis
    using d merge_complete_and_terminates [OF d]
    by (simp add: formatLog_def formatErr_def)
qed

section \<open>Properties of cutByteInMiddle\<close>

lemma drop_past_marker:
  assumes "b + length m \<le> e" "b + length m \<le> length arr"
  shows "drop e (take b arr @ m @ drop (b + length m) arr) = drop e arr"
proof -
  from assms have lb: "length (take b arr) = b" by simp
  have "drop e (take b arr @ m @ drop (b + length m) arr)
        = drop (e - b - length m) (drop (b + length m) arr)"
    using assms lb by simp
  also have "\<dots> = drop e arr"
    using assms by simp
  finally show ?thesis .
qed

text \<open>
  When the tail starts behind the marker that the first \<open>append\<close> writes, the marker
  does not reach the bytes of the tail, whatever the capacity of the slice.
\<close>

lemma cutByteInMiddle_cut:
  assumes lim: "\<not> (0 < limit \<and> int (length data) < limit)"
    and be: "b + length marker \<le> e" and el: "e \<le> length data"
  shows "cutByteInMiddle (Slice data sp) limit (int b) (int e)
         = Inr (take b data @ marker @ drop e data)"
proof -
  let ?arr = "data @ sp"
  have fits: "b + length marker \<le> length ?arr" using be el by simp
  have b_le: "b \<le> length data" using be el by simp
  have d: "drop e (take b ?arr @ marker @ drop (b + length marker) ?arr) = drop e ?arr"
    using be fits by (rule drop_past_marker)
  have t: "take (length data - e) (drop e ?arr) = drop e data"
    using el by simp
  have tb: "take b ?arr = take b data" using b_le by simp
  from lim have c: "(0 < limit \<and> int (length data) < limit) = False" by simp
  show ?thesis
    unfolding cutByteInMiddle_def Let_def
    using be el fits b_le d t tb by (simp add: c)
qed

lemma mb_val: "mb = 1048576"
  by (simp add: mb_def)

lemma limitSize_val: "limitSize = 2621440"
  by (simp add: limitSize_def mb_def)

lemma cutByteInMiddle_small:
  "int (length data) < limitSize \<Longrightarrow>
   cutByteInMiddle (Slice data sp) limitSize mb (int (length data) - mb) = Inr data"
  by (simp add: cutByteInMiddle_def limitSize_val)

lemma cutByteInMiddle_large:
  assumes big: "limitSize \<le> int (length data)"
  shows "cutByteInMiddle (Slice data sp) limitSize mb (int (length data) - mb)
         = Inr (take 1048576 data @ marker @ drop (length data - 1048576) data)"
proof -
  from big have n: "2621440 \<le> length data" by (simp add: limitSize_val)
  have lim: "\<not> (0 < limitSize \<and> int (length data) < limitSize)" using big by simp
  have be: "1048576 + length marker \<le> length data - 1048576"
    using n by (simp add: marker_def)
  have el: "length data - 1048576 \<le> length data" by simp
  have e: "int (length data) - mb = int (length data - 1048576)"
    using n by (simp add: mb_val)
  have b: "mb = int 1048576" by (simp add: mb_val)
  have "cutByteInMiddle (Slice data sp) limitSize mb (int (length data) - mb)
        = cutByteInMiddle (Slice data sp) limitSize (int 1048576) (int (length data - 1048576))"
    by (simp only: e) (simp only: b)
  also have "\<dots> = Inr (take 1048576 data @ marker @ drop (length data - 1048576) data)"
    by (rule cutByteInMiddle_cut [OF lim be el])
  finally show ?thesis .
qed

text \<open>
  C2 (as amended). For every payload, every limit, head size and tail size, called as
  \<open>cutByteInMiddle payload limit headSize (len payload - tailSize)\<close>: a payload shorter
  than the limit is returned unchanged; a payload of at least the limit in which head,
  marker and tail fit side by side (\<open>headSize + 6 + tailSize \<le> len payload\<close>) becomes
  its first \<open>headSize\<close> bytes, the marker \<open>"......"\<close> and its last \<open>tailSize\<close>
  bytes, of length \<open>headSize + 6 + tailSize\<close>, whatever the capacity of the slice. With
  the arguments of \<open>Collect\<close> (limit 2.5 MiB, head and tail 1 MiB each) every payload of
  at least the limit is such a payload, and the result has length \<open>2 * 2^20 + 6\<close>
  whatever the original length.
\<close>

theorem truncate_contract:
  "(int (length data) < limit \<longrightarrow>
      cutByteInMiddle (Slice data sp) limit (int headSize) (int (length data) - int tailSize)
        = Inr data) \<and>
   (limit \<le> int (length data) \<and> headSize + 6 + tailSize \<le> length data \<longrightarrow>
      cutByteInMiddle (Slice data sp) limit (int headSize) (int (length data) - int tailSize)
        = Inr (take headSize data @ ''......'' @ drop (length data - tailSize) data) \<and>
      length (take headSize data @ ''......'' @ drop (length data - tailSize) data)
        = headSize + 6 + tailSize) \<and>
   (int (length data) < limitSize \<longrightarrow>
      cutByteInMiddle (Slice data sp) limitSize mb (int (length data) - mb) = Inr data) \<and>
   (limitSize \<le> int (length data) \<longrightarrow>
      cutByteInMiddle (Slice data sp) limitSize mb (int (length data) - mb)
        = Inr (take (nat mb) data @ ''......'' @ drop (length data - nat mb) data) \<and>
      length (take (nat mb) data @ ''......'' @ drop (length data - nat mb) data)
        = nat mb + 6 + nat mb \<and>
      nat mb + 6 + nat mb = 2 * 2 ^ 20 + 6)"
proof (intro conjI impI)
  assume small: "int (length data) < limit"
  then have "0 < limit" by simp
  with small show "cutByteInMiddle (Slice data sp) limit (int headSize)
      (int (length data) - int tailSize) = Inr data"
    by (simp add: cutByteInMiddle_def)
next
  assume a: "limit \<le> int (length data) \<and> headSize + 6 + tailSize \<le> length data"
  then have lim: "\<not> (0 < limit \<and> int (length data) < limit)" by simp
  have len6: "length marker = 6" by (simp add: marker_def)
  have be: "headSize + length marker \<le> length data - tailSize"
    using a unfolding len6 by arith
  have el: "length data - tailSize \<le> length data" by simp
  have e: "int (length data) - int tailSize = int (length data - tailSize)"
    using a by simp
  show "cutByteInMiddle (Slice data sp) limit (int headSize) (int (length data) - int tailSize)
        = Inr (take headSize data @ ''......'' @ drop (length data - tailSize) data)"
    using cutByteInMiddle_cut [OF lim be el, of sp] by (simp add: e marker_def)
  show "length (take headSize data @ ''......'' @ drop (length data - tailSize) data)
        = headSize + 6 + tailSize"
    using a by simp
next
  assume "int (length data) < limitSize"
  then show "cutByteInMiddle (Slice data sp) limitSize mb (int (length data) - mb) = Inr data"
    by (rule cutByteInMiddle_small)
next
  assume big: "limitSize \<le> int (length data)"
  then have n: "2621440 \<le> length data" by (simp add: limitSize_val)
  show "cutByteInMiddle (Slice data sp) limitSize mb (int (length data) - mb)
        = Inr (take (nat mb) data @ ''......'' @ drop (length data - nat mb) data)"
    using cutByteInMiddle_large [OF big, of sp] by (simp add: marker_def mb_val)
  show "length (take (nat mb) data @ ''......'' @ drop (length data - nat mb) data)
        = nat mb + 6 + nat mb"
    using n by (simp add: mb_val)
  show "nat mb + 6 + nat mb = 2 * 2 ^ 20 + 6" by (simp add: mb_val)
qed

text \<open>
  A payload below the limit; a payload of sixteen bytes in a slice with four spare bytes
  of capacity, cut with head size 3 and tail size 4; and a payload of 3000000 bytes with
  the arguments of \<open>Collect\<close>.
\<close>

theorem truncate_contract_witness:
  "int (length ''abc'') < 10 \<and>
   cutByteInMiddle (Slice ''abc'' []) 10 (int 1) (int (length ''abc'') - int 1) = Inr ''abc'' \<and>
   (10 \<le> int (length ''abcdefghijklmnop'') \<and> 3 + 6 + 4 \<le> length ''abcdefghijklmnop'') \<and>
   cutByteInMiddle (Slice ''abcdefghijklmnop'' ''zzzz'') 10 (int 3)
       (int (length ''abcdefghijklmnop'') - int 4)
     = Inr ''abc......mnop'' \<and>
   limitSize \<le> int (length (replicate 3000000 (CHR ''a''))) \<and>
   cutByteInMiddle (Slice (replicate 3000000 (CHR ''a'')) ''zz'') limitSize mb
       (int (length (replicate 3000000 (CHR ''a''))) - mb)
     = Inr (replicate 1048576 (CHR ''a'') @ ''......'' @ replicate 1048576 (CHR ''a''))"
proof -
  have h1: "int (length ''abc'') < 10" by simp
  have h2: "10 \<le> int (length ''abcdefghijklmnop'') \<and> 3 + 6 + 4 \<le> length ''abcdefghijklmnop''"
    by simp
  have h3: "limitSize \<le> int (length (replicate 3000000 (CHR ''a'')))"
    by (simp add: limitSize_val)
  from truncate_contract [where data = "''abc''" and sp = "[]" and limit = 10 and headSize = 1
      and tailSize = 1] h1
  have r1: "cutByteInMiddle (Slice ''abc'' []) 10 (int 1) (int (length ''abc'') - int 1)
      = Inr ''abc''"
    by blast
  from truncate_contract [where data = "''abcdefghijklmnop''" and sp = "''zzzz''" and limit = 10
      and headSize = 3 and tailSize = 4] h2
  have r2: "cutByteInMiddle (Slice ''abcdefghijklmnop'' ''zzzz'') 10 (int 3)
       (int (length ''abcdefghijklmnop'') - int 4)
     = Inr (take 3 ''abcdefghijklmnop'' @ ''......''
            @ drop (length ''abcdefghijklmnop'' - 4) ''abcdefghijklmnop'')"
    by blast
  from truncate_contract [where data = "replicate 3000000 (CHR ''a'')" and sp = "''zz''"] h3
  have r3: "cutByteInMiddle (Slice (replicate 3000000 (CHR ''a'')) ''zz'') limitSize mb
       (int (length (replicate 3000000 (CHR ''a''))) - mb)
     = Inr (take (nat mb) (replicate 3000000 (CHR ''a'')) @ ''......''
            @ drop (length (replicate 3000000 (CHR ''a'')) - nat mb)
                (replicate 3000000 (CHR ''a'')))"
    by blast
  from r2 have r2': "cutByteInMiddle (Slice ''abcdefghijklmnop'' ''zzzz'') 10 (int 3)
       (int (length ''abcdefghijklmnop'') - int 4) = Inr ''abc......mnop''"
    by simp
  from r3 have r3': "cutByteInMiddle (Slice (replicate 3000000 (CHR ''a'')) ''zz'') limitSize mb
       (int (length (replicate 3000000 (CHR ''a''))) - mb)
     = Inr (replicate 1048576 (CHR ''a'') @ ''......'' @ replicate 1048576 (CHR ''a''))"
    by (simp add: mb_val)
  from h1 h2 h3 r1 r2' r3' show ?thesis by blast
qed

text \<open>
  C2 (as stated) fails: with limit 5, head size 2 and tail size 6 on the ten bytes
  \<open>abcdefghij\<close>, the marker that the first \<open>append\<close> writes into the shared array
  covers the first four bytes of the tail, and the result is not head, marker and tail.
\<close>

theorem truncate_overlap_counterexample:
  "cutByteInMiddle (Slice ''abcdefghij'' []) 5 2 (int (length ''abcdefghij'') - 6)
     = Inr ''ab..........ij'' \<and>
   ''ab..........ij'' \<noteq> take 2 ''abcdefghij'' @ ''......'' @ drop (length ''abcdefghij'' - 6) ''abcdefghij''"
  by (simp add: cutByteInMiddle_def marker_def)

text \<open>
  C10. With the arguments of \<open>Collect\<close> the function never panics: it returns a value
  for every payload and every capacity, and whenever the truncation branch is reached
  the two indices satisfy \<open>0 \<le> begin \<le> end \<le> len(data)\<close>.
\<close>

theorem cutByteInMiddle_in_bounds:
  "(\<exists>out. cutByteInMiddle (Slice data sp) limitSize mb (int (length data) - mb) = Inr out) \<and>
   (limitSize \<le> int (length data) \<longrightarrow>
      0 \<le> mb \<and> mb \<le> int (length data) - mb \<and> int (length data) - mb \<le> int (length data))"
proof (intro conjI impI)
  show "\<exists>out. cutByteInMiddle (Slice data sp) limitSize mb (int (length data) - mb) = Inr out"
  proof (cases "int (length data) < limitSize")
    case True
    then show ?thesis using cutByteInMiddle_small by blast
  next
    case False
    then have "limitSize \<le> int (length data)" by simp
    then show ?thesis using cutByteInMiddle_large by blast
  qed
next
  assume "limitSize \<le> int (length data)"
  then have n: "2621440 \<le> int (length data)" by (simp add: limitSize_val)
  show "0 \<le> mb" by (simp add: mb_val)
  show "mb \<le> int (length data) - mb" using n by (simp add: mb_val)
  show "int (length data) - mb \<le> int (length data)" by (simp add: mb_val)
qed

theorem cutByteInMiddle_in_bounds_witness:
  "limitSize \<le> int (length (replicate 2621440 (CHR ''x''))) \<and>
   (\<exists>out. cutByteInMiddle (Slice (replicate 2621440 (CHR ''x'')) []) limitSize mb
             (int (length (replicate 2621440 (CHR ''x''))) - mb) = Inr out) \<and>
   mb \<le> int (length (replicate 2621440 (CHR ''x''))) - mb"
  using cutByteInMiddle_in_bounds [of "replicate 2621440 (CHR ''x'')" "[]"]
  by (simp add: limitSize_val)

section \<open>Properties of the storage keys\<close>

text \<open>
  C3. The two keys depend only on the month, the application and its ID, the cluster
  and its ID and the name of the run; the snapshot key and the log key of the same
  metadata and month differ; and run \<open>build-42\<close> of application \<open>shop\<close> (ID 7) on
  cluster \<open>prod\<close> (ID 3) in month \<open>202401\<close> has the keys
  \<open>202401/pr/shop-7/prod-3/build-42\<close> and \<open>202401/pr-log/shop-7/prod-3/build-42\<close>.
\<close>

theorem storage_keys:
  "(Application m = Application m' \<and> ApplicationID m = ApplicationID m' \<and>
    Cluster m = Cluster m' \<and> ClusterID m = ClusterID m' \<and>
    Name (PipelineRun m) = Name (PipelineRun m') \<longrightarrow>
      getPathForPr t m = getPathForPr t m' \<and> getPathForPrLog t m = getPathForPrLog t m') \<and>
   getPathForPr t m \<noteq> getPathForPrLog t m \<and>
   (Application m = ''shop'' \<and> ApplicationID m = ''7'' \<and> Cluster m = ''prod'' \<and>
    ClusterID m = ''3'' \<and> Name (PipelineRun m) = ''build-42'' \<longrightarrow>
      getPathForPr ''202401'' m = ''202401/pr/shop-7/prod-3/build-42'' \<and>
      getPathForPrLog ''202401'' m = ''202401/pr-log/shop-7/prod-3/build-42'')"
  by (simp add: getPathForPr_def getPathForPrLog_def)

text \<open>
  Two runs that differ only in the environment and the operator have the same keys,
  and the metadata of the scenario has the keys of the specification.
\<close>

theorem storage_keys_witness:
  "getPathForPr ''202401'' scenarioMetadata
     = getPathForPr ''202401'' (scenarioMetadata\<lparr>Environment := ''test'', Operator := ''bob''\<rparr>) \<and>
   getPathForPr ''202401'' scenarioMetadata = ''202401/pr/shop-7/prod-3/build-42'' \<and>
   getPathForPrLog ''202401'' scenarioMetadata = ''202401/pr-log/shop-7/prod-3/build-42''"
proof -
  let ?m' = "scenarioMetadata\<lparr>Environment := ''test'', Operator := ''bob''\<rparr>"
  have same: "Application scenarioMetadata = Application ?m' \<and>
      ApplicationID scenarioMetadata = ApplicationID ?m' \<and>
      Cluster scenarioMetadata = Cluster ?m' \<and> ClusterID scenarioMetadata = ClusterID ?m' \<and>
      Name (PipelineRun scenarioMetadata) = Name (PipelineRun ?m')"
    by simp
  have scenario: "Application scenarioMetadata = ''shop'' \<and>
      ApplicationID scenarioMetadata = ''7'' \<and> Cluster scenarioMetadata = ''prod'' \<and>
      ClusterID scenarioMetadata = ''3'' \<and> Name (PipelineRun scenarioMetadata) = ''build-42''"
    by (simp add: scenarioMetadata_def)
  from storage_keys [of scenarioMetadata ?m' "''202401''"] same scenario
  show ?thesis by blast
qed

section \<open>Properties of Collect\<close>


lemma collectLog_del [simp]:
  "collectLog (w\<lparr>tektonDeletePipelineRun := d\<rparr>) pr m = collectLog w pr m"
  by (simp add: collectLog_def Let_def cong: sum.case_cong option.case_cong if_cong)

lemma collectObject_del [simp]:
  "collectObject (w\<lparr>tektonDeletePipelineRun := d\<rparr>) m pr = collectObject w m pr"
  by (simp add: collectObject_def Let_def cong: sum.case_cong option.case_cong if_cong)

lemma collectLog_trace:
  "collectLog w pr m = (t, r) \<Longrightarrow>
   TektonDeletePipelineRun \<notin> set t \<and>
   (\<forall>x. r = Returns x \<longrightarrow>
      S3PutObject (getPathForPrLog (nowPrLog w) m) (LogContent x) True \<in> set t \<and>
      clLogObject x = getPathForPrLog (nowPrLog w) m)"
  by (auto simp: collectLog_def Let_def split: sum.splits option.splits if_splits)

lemma collectObject_trace:
  "collectObject w m pr = (t, r) \<Longrightarrow>
   TektonDeletePipelineRun \<notin> set t \<and>
   (\<forall>x. r = Returns x \<longrightarrow>
      (\<exists>b. S3PutObject (getPathForPr (nowPr w) m) b True \<in> set t) \<and>
      coPrObject x = getPathForPr (nowPr w) m)"
  by (auto simp: collectObject_def Let_def split: sum.splits option.splits if_splits)

lemma cut_total:
  "\<exists>out. cutByteInMiddle b limitSize mb (int (length (elems b)) - mb) = Inr out"
proof (cases b)
  case (Slice data sp)
  show ?thesis
  proof (cases "int (length data) < limitSize")
    case True
    then show ?thesis using cutByteInMiddle_small Slice by auto
  next
    case False
    then have "limitSize \<le> int (length data)" by simp
    then show ?thesis using cutByteInMiddle_large Slice by auto
  qed
qed

lemma delete_last:
  "ys @ [TektonDeletePipelineRun] = pre @ TektonDeletePipelineRun # post \<Longrightarrow>
   TektonDeletePipelineRun \<notin> set ys \<Longrightarrow> pre = ys"
proof (induction ys arbitrary: pre)
  case Nil
  then show ?case by (cases pre) auto
next
  case (Cons y ys)
  show ?case
  proof (cases pre)
    case Nil
    with Cons.prems show ?thesis by simp
  next
    case (Cons p pre')
    with Cons.prems have "ys @ [TektonDeletePipelineRun] = pre' @ TektonDeletePipelineRun # post"
      and "p = y" and "TektonDeletePipelineRun \<notin> set ys" by simp_all
    with Cons.IH [of pre'] Cons show ?thesis by simp
  qed
qed


lemma Collect_trace_cases:
  "fst (Collect w pr hm) = fst (collectLog w pr (resolveObjMetadata w pr hm)) \<or>
   fst (Collect w pr hm) = fst (collectLog w pr (resolveObjMetadata w pr hm))
      @ fst (collectObject w (resolveObjMetadata w pr hm) pr) \<or>
   (\<exists>lr orr line.
      snd (collectLog w pr (resolveObjMetadata w pr hm)) = Returns lr \<and>
      snd (collectObject w (resolveObjMetadata w pr hm) pr) = Returns orr \<and>
      fst (Collect w pr hm) = (fst (collectLog w pr (resolveObjMetadata w pr hm))
         @ fst (collectObject w (resolveObjMetadata w pr hm) pr))
         @ [LoggerPrintln line, S3GetBucket] @ [TektonDeletePipelineRun])"
  by (auto simp: Collect_def andThen_def Let_def
      split: prod.splits outcome.splits sum.splits option.splits if_splits)


text \<open>
  C8. In the sequence of calls that \<open>Collect\<close> makes, every deletion request to the
  orchestrator comes after a successful put of the log object and a successful put of
  the snapshot object, each at its key.
\<close>

theorem deletion_only_after_persistence:
  assumes tr: "fst (Collect w pr hm) = pre @ TektonDeletePipelineRun # post"
  shows "(\<exists>b. S3PutObject (getPathForPrLog (nowPrLog w) (resolveObjMetadata w pr hm)) b True
            \<in> set pre) \<and>
         (\<exists>b. S3PutObject (getPathForPr (nowPr w) (resolveObjMetadata w pr hm)) b True
            \<in> set pre)"
proof -
  let ?m = "resolveObjMetadata w pr hm"
  obtain t1 r1 where l: "collectLog w pr ?m = (t1, r1)" by (cases "collectLog w pr ?m")
  obtain t2 r2 where ob: "collectObject w ?m pr = (t2, r2)" by (cases "collectObject w ?m pr")
  note l1 = collectLog_trace [OF l] and o1 = collectObject_trace [OF ob]
  have n1: "TektonDeletePipelineRun \<notin> set t1" using l1 by simp
  have n2: "TektonDeletePipelineRun \<notin> set t2" using o1 by simp
  have del: "TektonDeletePipelineRun \<in> set (fst (Collect w pr hm))" using tr by simp
  from Collect_trace_cases [of w pr hm] del n1 n2 l ob
  obtain lr orr line where r1: "r1 = Returns lr" and r2: "r2 = Returns orr"
    and tt: "fst (Collect w pr hm)
             = (t1 @ t2) @ [LoggerPrintln line, S3GetBucket] @ [TektonDeletePipelineRun]"
    by auto
  have "((t1 @ t2) @ [LoggerPrintln line, S3GetBucket]) @ [TektonDeletePipelineRun]
        = pre @ TektonDeletePipelineRun # post"
    using tt tr by simp
  moreover have "TektonDeletePipelineRun \<notin> set ((t1 @ t2) @ [LoggerPrintln line, S3GetBucket])"
    using n1 n2 by simp
  ultimately have pre: "pre = (t1 @ t2) @ [LoggerPrintln line, S3GetBucket]"
    by (rule delete_last)
  have "S3PutObject (getPathForPrLog (nowPrLog w) ?m) (LogContent lr) True \<in> set t1"
    using l1 r1 by simp
  moreover obtain b where "S3PutObject (getPathForPr (nowPr w) ?m) b True \<in> set t2"
    using o1 r2 by auto
  ultimately show ?thesis using pre by auto
qed


lemma Collect_after_steps:
  assumes l: "collectLog w pr (resolveObjMetadata w pr hm) = (t1, Returns lr)"
    and ob: "collectObject w (resolveObjMetadata w pr hm) pr = (t2, Returns orr)"
    and js: "jsonMarshalLogStruct w
               (NewLogStruct (PrURL orr) (resolveObjMetadata w pr hm) (LogURL lr) (LogContent lr))
             = Inr b"
  shows "\<exists>line. Collect w pr hm =
           (t1 @ t2 @ [LoggerPrintln line, S3GetBucket, TektonDeletePipelineRun],
            case tektonDeletePipelineRun w pr of
              None \<Rightarrow>
                Returns \<lparr>Bucket = s3GetBucket w, crLogObject = clLogObject lr,
                         crPrObject = coPrObject orr,
                         crResult = Result (PipelineRun (resolveObjMetadata w pr hm)),
                         crStartTime = StartTime (PipelineRun (resolveObjMetadata w pr hm)),
                         crCompletionTime =
                           CompletionTime (PipelineRun (resolveObjMetadata w pr hm))\<rparr>
            | Some err \<Rightarrow>
                if isHorizonErrNotFound (Cause err)
                then Returns \<lparr>Bucket = s3GetBucket w, crLogObject = clLogObject lr,
                         crPrObject = coPrObject orr,
                         crResult = Result (PipelineRun (resolveObjMetadata w pr hm)),
                         crStartTime = StartTime (PipelineRun (resolveObjMetadata w pr hm)),
                         crCompletionTime =
                           CompletionTime (PipelineRun (resolveObjMetadata w pr hm))\<rparr>
                else Fails err)"
proof -
  obtain line where cut: "cutByteInMiddle b limitSize mb (int (length (elems b)) - mb) = Inr line"
    using cut_total by blast
  show ?thesis
    using l ob js cut
    by (simp add: Collect_def andThen_def Let_def split: option.splits)
qed

text \<open>
  C4. When the log and the snapshot have been collected and the audit record
  serialised (steps 1 to 5), and the orchestrator answers the deletion with an error:
  if the cause of the error is NotFound, \<open>Collect\<close> returns the result it returns when
  the deletion succeeds, the record built in step 5, and no error; otherwise it fails
  with that error, although both objects were put and the audit line was printed before
  the deletion was requested.
\<close>

theorem deletion_error_policy:
  assumes l: "snd (collectLog w pr (resolveObjMetadata w pr hm)) = Returns lr"
    and ob: "snd (collectObject w (resolveObjMetadata w pr hm) pr) = Returns orr"
    and js: "jsonMarshalLogStruct w
               (NewLogStruct (PrURL orr) (resolveObjMetadata w pr hm) (LogURL lr) (LogContent lr))
             = Inr b"
    and del: "tektonDeletePipelineRun w pr = Some err"
  shows "snd (Collect w pr hm) =
           (if isHorizonErrNotFound (Cause err)
            then snd (Collect (w\<lparr>tektonDeletePipelineRun := \<lambda>p. None\<rparr>) pr hm)
            else Fails err) \<and>
         snd (Collect (w\<lparr>tektonDeletePipelineRun := \<lambda>p. None\<rparr>) pr hm) =
           Returns \<lparr>Bucket = s3GetBucket w, crLogObject = clLogObject lr,
                    crPrObject = coPrObject orr,
                    crResult = Result (PipelineRun (resolveObjMetadata w pr hm)),
                    crStartTime = StartTime (PipelineRun (resolveObjMetadata w pr hm)),
                    crCompletionTime =
                      CompletionTime (PipelineRun (resolveObjMetadata w pr hm))\<rparr> \<and>
         (\<exists>line. fst (Collect w pr hm) =
            fst (collectLog w pr (resolveObjMetadata w pr hm))
            @ fst (collectObject w (resolveObjMetadata w pr hm) pr)
            @ [LoggerPrintln line, S3GetBucket, TektonDeletePipelineRun]) \<and>
         S3PutObject (getPathForPrLog (nowPrLog w) (resolveObjMetadata w pr hm)) (LogContent lr) True
           \<in> set (fst (collectLog w pr (resolveObjMetadata w pr hm))) \<and>
         (\<exists>body. S3PutObject (getPathForPr (nowPr w) (resolveObjMetadata w pr hm)) body True
           \<in> set (fst (collectObject w (resolveObjMetadata w pr hm) pr)))"
proof -
  let ?m = "resolveObjMetadata w pr hm"
  let ?w' = "w\<lparr>tektonDeletePipelineRun := \<lambda>p. None\<rparr>"
  obtain t1 where l': "collectLog w pr ?m = (t1, Returns lr)"
    using l by (cases "collectLog w pr ?m") simp
  obtain t2 where ob': "collectObject w ?m pr = (t2, Returns orr)"
    using ob by (cases "collectObject w ?m pr") simp
  from Collect_after_steps [OF l' ob' js] del
  obtain line where c: "Collect w pr hm =
      (t1 @ t2 @ [LoggerPrintln line, S3GetBucket, TektonDeletePipelineRun],
       if isHorizonErrNotFound (Cause err)
       then Returns \<lparr>Bucket = s3GetBucket w, crLogObject = clLogObject lr,
                crPrObject = coPrObject orr,
                crResult = Result (PipelineRun ?m),
                crStartTime = StartTime (PipelineRun ?m),
                crCompletionTime = CompletionTime (PipelineRun ?m)\<rparr>
       else Fails err)"
    by auto
  have l'': "collectLog ?w' pr (resolveObjMetadata ?w' pr hm) = (t1, Returns lr)"
    using l' by simp
  have ob'': "collectObject ?w' (resolveObjMetadata ?w' pr hm) pr = (t2, Returns orr)"
    using ob' by simp
  have js': "jsonMarshalLogStruct ?w'
               (NewLogStruct (PrURL orr) (resolveObjMetadata ?w' pr hm) (LogURL lr) (LogContent lr))
             = Inr b"
    using js by simp
  from Collect_after_steps [OF l'' ob'' js']
  have c': "snd (Collect ?w' pr hm) =
      Returns \<lparr>Bucket = s3GetBucket w, crLogObject = clLogObject lr,
                crPrObject = coPrObject orr,
                crResult = Result (PipelineRun ?m),
                crStartTime = StartTime (PipelineRun ?m),
                crCompletionTime = CompletionTime (PipelineRun ?m)\<rparr>"
    by auto
  note l1 = collectLog_trace [OF l'] and o1 = collectObject_trace [OF ob']
  show ?thesis
    using c c' l' ob' l1 o1 by simp
qed

subsection \<open>Collect on the scenario\<close>


lemma scenario_collectLog:
  "collectLog (scenarioWorld d) ''build-42'' scenarioMetadata =
     ([TektonGetPipelineRunLog,
       S3GetSignedObjectURL ''202401/pr-log/shop-7/prod-3/build-42'',
       S3PutObject ''202401/pr-log/shop-7/prod-3/build-42'' (''[t1 : s1] hello'' @ nl) True],
      Returns \<lparr>clLogObject = ''202401/pr-log/shop-7/prod-3/build-42'',
               LogURL = ''https://store/202401/pr-log/shop-7/prod-3/build-42'',
               LogContent = ''[t1 : s1] hello'' @ nl\<rparr>)"
  by (simp add: Let_def collectLog_def scenarioWorld_def scenarioMetadata_def getPathForPrLog_def
      pipeClosed_def mergedText_def pipeWrites_def emit_def formatLog_def)

lemma scenario_collectObject:
  "collectObject (scenarioWorld d) scenarioMetadata ''build-42'' =
     ([S3GetSignedObjectURL ''202401/pr/shop-7/prod-3/build-42'',
       S3PutObject ''202401/pr/shop-7/prod-3/build-42'' ''{}'' True],
      Returns \<lparr>coPrObject = ''202401/pr/shop-7/prod-3/build-42'',
               PrURL = ''https://store/202401/pr/shop-7/prod-3/build-42''\<rparr>)"
  by (simp add: Let_def collectObject_def scenarioWorld_def scenarioMetadata_def getPathForPr_def)

lemma scenario_Collect:
  "Collect (scenarioWorld d) ''build-42'' () =
     ([TektonGetPipelineRunLog,
       S3GetSignedObjectURL ''202401/pr-log/shop-7/prod-3/build-42'',
       S3PutObject ''202401/pr-log/shop-7/prod-3/build-42'' (''[t1 : s1] hello'' @ nl) True,
       S3GetSignedObjectURL ''202401/pr/shop-7/prod-3/build-42'',
       S3PutObject ''202401/pr/shop-7/prod-3/build-42'' ''{}'' True,
       LoggerPrintln ''{}'', S3GetBucket, TektonDeletePipelineRun],
      case d of
        None \<Rightarrow> Returns \<lparr>Bucket = ''bucket'',
               crLogObject = ''202401/pr-log/shop-7/prod-3/build-42'',
               crPrObject = ''202401/pr/shop-7/prod-3/build-42'',
               crResult = ''ok'', crStartTime = Some 100, crCompletionTime = Some 160\<rparr>
      | Some err \<Rightarrow> if isHorizonErrNotFound (Cause err) then Returns \<lparr>Bucket = ''bucket'',
               crLogObject = ''202401/pr-log/shop-7/prod-3/build-42'',
               crPrObject = ''202401/pr/shop-7/prod-3/build-42'',
               crResult = ''ok'', crStartTime = Some 100, crCompletionTime = Some 160\<rparr> else Fails err)"
proof -
  have m: "resolveObjMetadata (scenarioWorld d) ''build-42'' () = scenarioMetadata"
    by (simp add: scenarioWorld_def)
  have cut: "cutByteInMiddle (Slice ''{}'' []) limitSize mb (int (length ''{}'') - mb) = Inr ''{}''"
    by (simp add: cutByteInMiddle_def limitSize_val)
  show ?thesis
    unfolding Collect_def m Let_def scenario_collectLog scenario_collectObject andThen_def
    using cut
    by (simp add: scenarioWorld_def scenarioMetadata_def split: option.splits)
qed


text \<open>
  In the scenario the deletion is the last call, after the two successful puts.
\<close>

theorem deletion_only_after_persistence_witness:
  "fst (Collect (scenarioWorld None) ''build-42'' ()) =
     [TektonGetPipelineRunLog,
      S3GetSignedObjectURL ''202401/pr-log/shop-7/prod-3/build-42'',
      S3PutObject ''202401/pr-log/shop-7/prod-3/build-42'' (''[t1 : s1] hello'' @ nl) True,
      S3GetSignedObjectURL ''202401/pr/shop-7/prod-3/build-42'',
      S3PutObject ''202401/pr/shop-7/prod-3/build-42'' ''{}'' True,
      LoggerPrintln ''{}'', S3GetBucket] @ TektonDeletePipelineRun # [] \<and>
   (\<exists>b. S3PutObject ''202401/pr-log/shop-7/prod-3/build-42'' b True \<in> set
     [TektonGetPipelineRunLog,
      S3GetSignedObjectURL ''202401/pr-log/shop-7/prod-3/build-42'',
      S3PutObject ''202401/pr-log/shop-7/prod-3/build-42'' (''[t1 : s1] hello'' @ nl) True,
      S3GetSignedObjectURL ''202401/pr/shop-7/prod-3/build-42'',
      S3PutObject ''202401/pr/shop-7/prod-3/build-42'' ''{}'' True,
      LoggerPrintln ''{}'', S3GetBucket]) \<and>
   (\<exists>b. S3PutObject ''202401/pr/shop-7/prod-3/build-42'' b True \<in> set
     [TektonGetPipelineRunLog,
      S3GetSignedObjectURL ''202401/pr-log/shop-7/prod-3/build-42'',
      S3PutObject ''202401/pr-log/shop-7/prod-3/build-42'' (''[t1 : s1] hello'' @ nl) True,
      S3GetSignedObjectURL ''202401/pr/shop-7/prod-3/build-42'',
      S3PutObject ''202401/pr/shop-7/prod-3/build-42'' ''{}'' True,
      LoggerPrintln ''{}'', S3GetBucket])"
proof -
  let ?pre = "[TektonGetPipelineRunLog,
      S3GetSignedObjectURL ''202401/pr-log/shop-7/prod-3/build-42'',
      S3PutObject ''202401/pr-log/shop-7/prod-3/build-42'' (''[t1 : s1] hello'' @ nl) True,
      S3GetSignedObjectURL ''202401/pr/shop-7/prod-3/build-42'',
      S3PutObject ''202401/pr/shop-7/prod-3/build-42'' ''{}'' True,
      LoggerPrintln ''{}'', S3GetBucket]"
  have h: "fst (Collect (scenarioWorld None) ''build-42'' ()) = ?pre @ TektonDeletePipelineRun # []"
    by (simp add: scenario_Collect)
  have k1: "getPathForPrLog (nowPrLog (scenarioWorld None))
              (resolveObjMetadata (scenarioWorld None) ''build-42'' ())
            = ''202401/pr-log/shop-7/prod-3/build-42''"
    by (simp add: scenarioWorld_def scenarioMetadata_def getPathForPrLog_def)
  have k2: "getPathForPr (nowPr (scenarioWorld None))
              (resolveObjMetadata (scenarioWorld None) ''build-42'' ())
            = ''202401/pr/shop-7/prod-3/build-42''"
    by (simp add: scenarioWorld_def scenarioMetadata_def getPathForPr_def)
  from deletion_only_after_persistence [OF h] h show ?thesis
    unfolding k1 k2 by blast
qed

text \<open>
  In the scenario, a deletion answered with a wrapped NotFound gives the result of a
  successful collection, and a deletion answered with another error gives that error.
\<close>

theorem deletion_error_policy_witness:
  "snd (Collect (scenarioWorld (Some (WithMessage (HorizonErrNotFound Pipelinerun ''gone'')
                                        ''delete failed''))) ''build-42'' ())
     = Returns \<lparr>Bucket = ''bucket'',
                crLogObject = ''202401/pr-log/shop-7/prod-3/build-42'',
                crPrObject = ''202401/pr/shop-7/prod-3/build-42'',
                crResult = ''ok'', crStartTime = Some 100, crCompletionTime = Some 160\<rparr> \<and>
   snd (Collect (scenarioWorld (Some (Plain ''timeout''))) ''build-42'' ())
     = Fails (Plain ''timeout'')"
proof -
  let ?lr = "\<lparr>clLogObject = ''202401/pr-log/shop-7/prod-3/build-42'',
               LogURL = ''https://store/202401/pr-log/shop-7/prod-3/build-42'',
               LogContent = ''[t1 : s1] hello'' @ nl\<rparr>"
  let ?or = "\<lparr>coPrObject = ''202401/pr/shop-7/prod-3/build-42'',
               PrURL = ''https://store/202401/pr/shop-7/prod-3/build-42''\<rparr>"
  have m: "resolveObjMetadata (scenarioWorld d) ''build-42'' () = scenarioMetadata" for d
    by (simp add: scenarioWorld_def)
  have h1: "snd (collectLog (scenarioWorld d) ''build-42''
                  (resolveObjMetadata (scenarioWorld d) ''build-42'' ())) = Returns ?lr" for d
    by (simp add: m scenario_collectLog)
  have h2: "snd (collectObject (scenarioWorld d)
                  (resolveObjMetadata (scenarioWorld d) ''build-42'' ()) ''build-42'')
            = Returns ?or" for d
    by (simp add: m scenario_collectObject)
  have h3: "jsonMarshalLogStruct (scenarioWorld d)
              (NewLogStruct (PrURL ?or) (resolveObjMetadata (scenarioWorld d) ''build-42'' ())
                 (LogURL ?lr) (LogContent ?lr)) = Inr (Slice ''{}'' [])" for d
    by (simp add: scenarioWorld_def)
  have h4: "tektonDeletePipelineRun (scenarioWorld d) ''build-42'' = d" for d
    by (simp add: scenarioWorld_def)
  have v: "s3GetBucket (scenarioWorld d) = ''bucket''"
    "Result (PipelineRun scenarioMetadata) = ''ok''"
    "StartTime (PipelineRun scenarioMetadata) = Some 100"
    "CompletionTime (PipelineRun scenarioMetadata) = Some 160" for d
    by (simp_all add: scenarioWorld_def scenarioMetadata_def)
  note gone = deletion_error_policy
      [OF h1 h2 h3 h4 [of "Some (WithMessage (HorizonErrNotFound Pipelinerun ''gone'')
                                   ''delete failed'')"]]
  note timeout = deletion_error_policy [OF h1 h2 h3 h4 [of "Some (Plain ''timeout'')"]]
  from gone timeout show ?thesis
    by (simp add: m v)
qed

section \<open>Properties of the read path\<close>


lemma getObjectError_NotFound:
  "(\<exists>m. getObjectError kind err = HorizonErrNotFound kind' m)
   \<longleftrightarrow> kind' = kind \<and> (\<exists>msg. err = AwsErr ErrCodeNoSuchKey msg)"
  by (cases err) (auto simp: getObjectError_def)

lemma getObjectError_other:
  "\<forall>msg. err \<noteq> AwsErr ErrCodeNoSuchKey msg \<Longrightarrow>
   getObjectError kind err = Wrap (Sentinel ErrS3GetObjFailed) (errText err)"
  by (cases err) (auto simp: getObjectError_def)

text \<open>
  C9. Reading a persisted object fails with NotFound (of kind log in
  \<open>getPipelineRunLog\<close>, of kind snapshot in \<open>GetPipelineRunObject\<close>) exactly when the
  store answers with an \<open>awserr.Error\<close> of code \<open>NoSuchKey\<close>; every other error of
  the store gives \<open>ErrS3GetObjFailed\<close>; and bytes that do not unmarshal into the
  envelope give \<open>ErrParamInvalid\<close>.
\<close>

theorem store_read_errors:
  "((\<exists>m. snd (getPipelineRunLog w key) = Fails (HorizonErrNotFound PipelinerunLog m))
      \<longleftrightarrow> (\<exists>msg. s3GetObject w key = Inl (AwsErr ErrCodeNoSuchKey msg))) \<and>
   ((\<exists>m. snd (GetPipelineRunObject w key) = Fails (HorizonErrNotFound PipelinerunObj m))
      \<longleftrightarrow> (\<exists>msg. s3GetObject w key = Inl (AwsErr ErrCodeNoSuchKey msg))) \<and>
   (s3GetObject w key = Inl err \<and> (\<forall>msg. err \<noteq> AwsErr ErrCodeNoSuchKey msg) \<longrightarrow>
      snd (getPipelineRunLog w key) = Fails (Wrap (Sentinel ErrS3GetObjFailed) (errText err)) \<and>
      snd (GetPipelineRunObject w key) = Fails (Wrap (Sentinel ErrS3GetObjFailed) (errText err))) \<and>
   (s3GetObject w key = Inr b \<and> jsonUnmarshalObject w b = Inl jerr \<longrightarrow>
      snd (GetPipelineRunObject w key) = Fails (Wrap (Sentinel ErrParamInvalid) (errText jerr)))"
proof (intro conjI impI)
  show "(\<exists>m. snd (getPipelineRunLog w key) = Fails (HorizonErrNotFound PipelinerunLog m))
      \<longleftrightarrow> (\<exists>msg. s3GetObject w key = Inl (AwsErr ErrCodeNoSuchKey msg))"
  proof (cases "s3GetObject w key")
    case (Inl e)
    then show ?thesis
      using getObjectError_NotFound [of PipelinerunLog e PipelinerunLog]
      by (simp add: getPipelineRunLog_def)
  next
    case (Inr b)
    then show ?thesis by (simp add: getPipelineRunLog_def)
  qed
  show "(\<exists>m. snd (GetPipelineRunObject w key) = Fails (HorizonErrNotFound PipelinerunObj m))
      \<longleftrightarrow> (\<exists>msg. s3GetObject w key = Inl (AwsErr ErrCodeNoSuchKey msg))"
  proof (cases "s3GetObject w key")
    case (Inl e)
    then show ?thesis
      using getObjectError_NotFound [of PipelinerunObj e PipelinerunObj]
      by (simp add: GetPipelineRunObject_def)
  next
    case (Inr b)
    then show ?thesis
      by (cases "jsonUnmarshalObject w b") (simp_all add: GetPipelineRunObject_def)
  qed
next
  assume a: "s3GetObject w key = Inl err \<and> (\<forall>msg. err \<noteq> AwsErr ErrCodeNoSuchKey msg)"
  then have o: "getObjectError kind err = Wrap (Sentinel ErrS3GetObjFailed) (errText err)" for kind
    by (simp add: getObjectError_other)
  show "snd (getPipelineRunLog w key) = Fails (Wrap (Sentinel ErrS3GetObjFailed) (errText err))"
    using a o by (simp add: getPipelineRunLog_def)
  show "snd (GetPipelineRunObject w key) = Fails (Wrap (Sentinel ErrS3GetObjFailed) (errText err))"
    using a o by (simp add: GetPipelineRunObject_def)
next
  assume "s3GetObject w key = Inr b \<and> jsonUnmarshalObject w b = Inl jerr"
  then show "snd (GetPipelineRunObject w key) = Fails (Wrap (Sentinel ErrParamInvalid) (errText jerr))"
    by (simp add: GetPipelineRunObject_def)
qed

text \<open>
  C6. For a run without a persisted snapshot key, an error of the orchestrator whose
  cause is NotFound gives nil and no error, and any other error of the orchestrator is
  returned; for a run with a persisted snapshot key the only call is the read of that
  key from the store, so the orchestrator is not contacted.
\<close>

theorem get_run_fallback:
  "(PrObject pr = [] \<and> tektonGetPipelineRunByID w (CIEventID pr) = Inl err \<longrightarrow>
      GetPipelineRun w pr =
        ([TektonGetPipelineRunByID (CIEventID pr)],
         if isHorizonErrNotFound (Cause err) then Returns None else Fails err)) \<and>
   (PrObject pr \<noteq> [] \<longrightarrow>
      fst (GetPipelineRun w pr) = [S3GetObject (PrObject pr)] \<and>
      fst (GetPipelineRun w pr) = fst (GetPipelineRunObject w (PrObject pr)))"
proof (intro conjI impI)
  assume "PrObject pr = [] \<and> tektonGetPipelineRunByID w (CIEventID pr) = Inl err"
  then show "GetPipelineRun w pr =
        ([TektonGetPipelineRunByID (CIEventID pr)],
         if isHorizonErrNotFound (Cause err) then Returns None else Fails err)"
    by (simp add: GetPipelineRun_def)
next
  assume p: "PrObject pr \<noteq> []"
  have t: "fst (GetPipelineRunObject w (PrObject pr)) = [S3GetObject (PrObject pr)]"
    by (simp add: GetPipelineRunObject_def split: sum.splits)
  show "fst (GetPipelineRun w pr) = [S3GetObject (PrObject pr)]"
  proof (cases "GetPipelineRunObject w (PrObject pr)")
    case (Pair t' r)
    with t have "t' = [S3GetObject (PrObject pr)]" by simp
    with Pair p show ?thesis
      by (cases r) (simp_all add: GetPipelineRun_def andThen_def split: option.splits)
  qed
  with t show "fst (GetPipelineRun w pr) = fst (GetPipelineRunObject w (PrObject pr))"
    by simp
qed

text \<open>
  C5 (as amended). \<open>GetPipelineRunLog\<close> branches on whether the run records a
  persisted snapshot key (\<open>PrObject\<close>). When it does, the bytes at the run's log key
  are read from the store and returned as a buffer-only \<open>Log\<close>, a missing object
  giving an error whose cause is NotFound of kind log; when it does not, the live stream
  is opened by the correlation identifier and the two channels are returned as they are.
\<close>

theorem get_log_branches_on_snapshot_key:
  "(PrObject pr \<noteq> [] \<and> s3GetObject w (LogObject pr) = Inr b \<longrightarrow>
      GetPipelineRunLog w pr =
        ([S3GetObject (LogObject pr)],
         Returns \<lparr>LogBytes = b, LogChannel = None, ErrChannel = None\<rparr>)) \<and>
   (PrObject pr \<noteq> [] \<and> s3GetObject w (LogObject pr) = Inl (AwsErr ErrCodeNoSuchKey msg) \<longrightarrow>
      GetPipelineRunLog w pr =
        ([S3GetObject (LogObject pr)],
         Fails (WithMessage (HorizonErrNotFound PipelinerunLog msg)
                  ''failed to get pipelineRun log from s3'')) \<and>
      Cause (WithMessage (HorizonErrNotFound PipelinerunLog msg)
               ''failed to get pipelineRun log from s3'')
        = HorizonErrNotFound PipelinerunLog msg) \<and>
   (PrObject pr = [] \<and> tektonGetPipelineRunLogByID w (CIEventID pr) = Inr (logCh, errCh) \<longrightarrow>
      GetPipelineRunLog w pr =
        ([TektonGetPipelineRunLogByID (CIEventID pr)],
         Returns \<lparr>LogBytes = [], LogChannel = Some logCh, ErrChannel = Some errCh\<rparr>))"
  by (simp add: GetPipelineRunLog_def getPipelineRunLog_def getObjectError_def)

text \<open>
  C5 (as stated) fails: a run that records a log key but no snapshot key is served from
  the orchestrator, and the store is not read.
\<close>

theorem get_log_with_log_key_counterexample:
  "LogObject \<lparr>PrObject = [], LogObject = ''202401/pr-log/shop-7/prod-3/build-42'',
               CIEventID = ''ev-1''\<rparr> \<noteq> [] \<and>
   GetPipelineRunLog (scenarioWorld None)
     \<lparr>PrObject = [], LogObject = ''202401/pr-log/shop-7/prod-3/build-42'', CIEventID = ''ev-1''\<rparr>
   = ([TektonGetPipelineRunLogByID ''ev-1''],
      Returns \<lparr>LogBytes = [], LogChannel = Some 0, ErrChannel = Some 1\<rparr>)"
  by (simp add: GetPipelineRunLog_def scenarioWorld_def)


text \<open>
  A collected run whose log is in the store, the same run when the object is missing,
  and a run that was never collected.
\<close>

theorem get_log_branches_on_snapshot_key_witness:
  "GetPipelineRunLog (scenarioWorld None)
     \<lparr>PrObject = ''202401/pr/shop-7/prod-3/build-42'',
      LogObject = ''202401/pr-log/shop-7/prod-3/build-42'', CIEventID = ''ev-1''\<rparr>
   = ([S3GetObject ''202401/pr-log/shop-7/prod-3/build-42''],
      Returns \<lparr>LogBytes = ''{}'', LogChannel = None, ErrChannel = None\<rparr>) \<and>
   GetPipelineRunLog
     ((scenarioWorld None)\<lparr>s3GetObject := \<lambda>key. Inl (AwsErr ''NoSuchKey'' ''no such key'')\<rparr>)
     \<lparr>PrObject = ''202401/pr/shop-7/prod-3/build-42'',
      LogObject = ''202401/pr-log/shop-7/prod-3/build-42'', CIEventID = ''ev-1''\<rparr>
   = ([S3GetObject ''202401/pr-log/shop-7/prod-3/build-42''],
      Fails (WithMessage (HorizonErrNotFound PipelinerunLog ''no such key'')
               ''failed to get pipelineRun log from s3'')) \<and>
   GetPipelineRunLog (scenarioWorld None) \<lparr>PrObject = [], LogObject = [], CIEventID = ''ev-1''\<rparr>
   = ([TektonGetPipelineRunLogByID ''ev-1''],
      Returns \<lparr>LogBytes = [], LogChannel = Some 0, ErrChannel = Some 1\<rparr>)"
proof -
  let ?run = "\<lparr>PrObject = ''202401/pr/shop-7/prod-3/build-42'',
      LogObject = ''202401/pr-log/shop-7/prod-3/build-42'', CIEventID = ''ev-1''\<rparr>"
  let ?live = "\<lparr>PrObject = [], LogObject = [], CIEventID = ''ev-1''\<rparr>"
  let ?missing = "(scenarioWorld None)
      \<lparr>s3GetObject := \<lambda>key. Inl (AwsErr ''NoSuchKey'' ''no such key'')\<rparr>"
  have h1: "PrObject ?run \<noteq> [] \<and> s3GetObject (scenarioWorld None) (LogObject ?run) = Inr ''{}''"
    by (simp add: scenarioWorld_def)
  have h2: "PrObject ?run \<noteq> [] \<and>
      s3GetObject ?missing (LogObject ?run) = Inl (AwsErr ErrCodeNoSuchKey ''no such key'')"
    by (simp add: ErrCodeNoSuchKey_def)
  have h3: "PrObject ?live = [] \<and>
      tektonGetPipelineRunLogByID (scenarioWorld None) (CIEventID ?live) = Inr (0, 1)"
    by (simp add: scenarioWorld_def)
  from get_log_branches_on_snapshot_key [where pr = ?run and w = "scenarioWorld None" and b = "''{}''"] h1
  have r1: "GetPipelineRunLog (scenarioWorld None) ?run =
      ([S3GetObject (LogObject ?run)],
       Returns \<lparr>LogBytes = ''{}'', LogChannel = None, ErrChannel = None\<rparr>)"
    by blast
  from get_log_branches_on_snapshot_key [where pr = ?run and w = ?missing and msg = "''no such key''"] h2
  have r2: "GetPipelineRunLog ?missing ?run =
      ([S3GetObject (LogObject ?run)],
       Fails (WithMessage (HorizonErrNotFound PipelinerunLog ''no such key'')
                ''failed to get pipelineRun log from s3''))"
    by blast
  from get_log_branches_on_snapshot_key [where pr = ?live and w = "scenarioWorld None" and logCh = 0 and errCh = 1] h3
  have r3: "GetPipelineRunLog (scenarioWorld None) ?live =
      ([TektonGetPipelineRunLogByID (CIEventID ?live)],
       Returns \<lparr>LogBytes = [], LogChannel = Some 0, ErrChannel = Some 1\<rparr>)"
    by blast
  from r1 r2 r3 show ?thesis by simp
qed

text \<open>
  A run that was never collected, with an orchestrator that answers NotFound and one
  that answers with a timeout; and a collected run.
\<close>

theorem get_run_fallback_witness:
  "GetPipelineRun
     ((scenarioWorld None)\<lparr>tektonGetPipelineRunByID :=
        \<lambda>i. Inl (WithMessage (HorizonErrNotFound Pipelinerun ''no run'') ''lookup failed'')\<rparr>)
     \<lparr>PrObject = [], LogObject = [], CIEventID = ''ev-1''\<rparr>
   = ([TektonGetPipelineRunByID ''ev-1''], Returns None) \<and>
   GetPipelineRun
     ((scenarioWorld None)\<lparr>tektonGetPipelineRunByID := \<lambda>i. Inl (Plain ''timeout'')\<rparr>)
     \<lparr>PrObject = [], LogObject = [], CIEventID = ''ev-1''\<rparr>
   = ([TektonGetPipelineRunByID ''ev-1''], Fails (Plain ''timeout'')) \<and>
   fst (GetPipelineRun (scenarioWorld None)
     \<lparr>PrObject = ''202401/pr/shop-7/prod-3/build-42'',
      LogObject = ''202401/pr-log/shop-7/prod-3/build-42'', CIEventID = ''ev-1''\<rparr>)
   = [S3GetObject ''202401/pr/shop-7/prod-3/build-42'']"
proof -
  let ?run = "\<lparr>PrObject = ''202401/pr/shop-7/prod-3/build-42'',
      LogObject = ''202401/pr-log/shop-7/prod-3/build-42'', CIEventID = ''ev-1''\<rparr>"
  let ?live = "\<lparr>PrObject = [], LogObject = [], CIEventID = ''ev-1''\<rparr>"
  let ?gone = "(scenarioWorld None)\<lparr>tektonGetPipelineRunByID :=
        \<lambda>i. Inl (WithMessage (HorizonErrNotFound Pipelinerun ''no run'') ''lookup failed'')\<rparr>"
  let ?down = "(scenarioWorld None)\<lparr>tektonGetPipelineRunByID := \<lambda>i. Inl (Plain ''timeout'')\<rparr>"
  have h1: "PrObject ?live = [] \<and> tektonGetPipelineRunByID ?gone (CIEventID ?live)
      = Inl (WithMessage (HorizonErrNotFound Pipelinerun ''no run'') ''lookup failed'')"
    by simp
  have h2: "PrObject ?live = [] \<and> tektonGetPipelineRunByID ?down (CIEventID ?live)
      = Inl (Plain ''timeout'')"
    by simp
  have h3: "PrObject ?run \<noteq> []" by simp
  from get_run_fallback [where pr = ?live and w = ?gone
      and err = "WithMessage (HorizonErrNotFound Pipelinerun ''no run'') ''lookup failed''"] h1
  have r1: "GetPipelineRun ?gone ?live = ([TektonGetPipelineRunByID ''ev-1''], Returns None)"
    by simp
  from get_run_fallback [where pr = ?live and w = ?down and err = "Plain ''timeout''"] h2
  have r2: "GetPipelineRun ?down ?live
      = ([TektonGetPipelineRunByID ''ev-1''], Fails (Plain ''timeout''))"
    by simp
  from get_run_fallback [where pr = ?run and w = "scenarioWorld None"] h3
  have r3: "fst (GetPipelineRun (scenarioWorld None) ?run)
      = [S3GetObject ''202401/pr/shop-7/prod-3/build-42'']"
    by simp
  from r1 r2 r3 show ?thesis by simp
qed

text \<open>
  A store without the object, a store that cannot be reached, and a codec that rejects
  the bytes.
\<close>

theorem store_read_errors_witness:
  "snd (getPipelineRunLog
     ((scenarioWorld None)\<lparr>s3GetObject := \<lambda>key. Inl (AwsErr ''NoSuchKey'' ''no such key'')\<rparr>)
     ''202401/pr-log/shop-7/prod-3/build-42'')
   = Fails (HorizonErrNotFound PipelinerunLog ''no such key'') \<and>
   snd (GetPipelineRunObject
     ((scenarioWorld None)\<lparr>s3GetObject := \<lambda>key. Inl (OtherErr ''connection reset'')\<rparr>)
     ''202401/pr/shop-7/prod-3/build-42'')
   = Fails (Wrap (Sentinel ErrS3GetObjFailed) ''connection reset'') \<and>
   snd (GetPipelineRunObject
     ((scenarioWorld None)\<lparr>jsonUnmarshalObject := \<lambda>b. Inl (OtherErr ''unexpected end of JSON input'')\<rparr>)
     ''202401/pr/shop-7/prod-3/build-42'')
   = Fails (Wrap (Sentinel ErrParamInvalid) ''unexpected end of JSON input'')"
proof -
  let ?missing = "(scenarioWorld None)
      \<lparr>s3GetObject := \<lambda>key. Inl (AwsErr ''NoSuchKey'' ''no such key'')\<rparr>"
  let ?down = "(scenarioWorld None)\<lparr>s3GetObject := \<lambda>key. Inl (OtherErr ''connection reset'')\<rparr>"
  let ?broken = "(scenarioWorld None)
      \<lparr>jsonUnmarshalObject := \<lambda>b. Inl (OtherErr ''unexpected end of JSON input'')\<rparr>"
  have h1: "\<exists>msg. s3GetObject ?missing ''202401/pr-log/shop-7/prod-3/build-42''
      = Inl (AwsErr ErrCodeNoSuchKey msg)"
    by (simp add: ErrCodeNoSuchKey_def)
  have h2: "s3GetObject ?down ''202401/pr/shop-7/prod-3/build-42'' = Inl (OtherErr ''connection reset'')
      \<and> (\<forall>msg. OtherErr ''connection reset'' \<noteq> AwsErr ErrCodeNoSuchKey msg)"
    by simp
  have h3: "s3GetObject ?broken ''202401/pr/shop-7/prod-3/build-42'' = Inr ''{}'' \<and>
      jsonUnmarshalObject ?broken ''{}'' = Inl (OtherErr ''unexpected end of JSON input'')"
    by (simp add: scenarioWorld_def)
  from store_read_errors [where w = ?missing and key = "''202401/pr-log/shop-7/prod-3/build-42''"] h1
  obtain m where "snd (getPipelineRunLog ?missing ''202401/pr-log/shop-7/prod-3/build-42'')
      = Fails (HorizonErrNotFound PipelinerunLog m)"
    by blast
  moreover have "snd (getPipelineRunLog ?missing ''202401/pr-log/shop-7/prod-3/build-42'')
      = Fails (getObjectError PipelinerunLog (AwsErr ''NoSuchKey'' ''no such key''))"
    by (simp add: getPipelineRunLog_def)
  ultimately have r1: "snd (getPipelineRunLog ?missing ''202401/pr-log/shop-7/prod-3/build-42'')
      = Fails (HorizonErrNotFound PipelinerunLog ''no such key'')"
    by (simp add: getObjectError_def ErrCodeNoSuchKey_def)
  from store_read_errors [where w = ?down and key = "''202401/pr/shop-7/prod-3/build-42''"
      and err = "OtherErr ''connection reset''"] h2
  have r2: "snd (GetPipelineRunObject ?down ''202401/pr/shop-7/prod-3/build-42'')
      = Fails (Wrap (Sentinel ErrS3GetObjFailed) ''connection reset'')"
    by simp
  from store_read_errors [where w = ?broken and key = "''202401/pr/shop-7/prod-3/build-42''"
      and b = "''{}''" and jerr = "OtherErr ''unexpected end of JSON input''"] h3
  have r3: "snd (GetPipelineRunObject ?broken ''202401/pr/shop-7/prod-3/build-42'')
      = Fails (Wrap (Sentinel ErrParamInvalid) ''unexpected end of JSON input'')"
    by simp
  from r1 r2 r3 show ?thesis by simp
qed

end
